theory Spec2Isabelle
  imports Complex_Main "HOL-Library.Sublist" "HOL-Library.Multiset"
begin

section \<open>Data model (types.ts, data/mockData.ts)\<close>

text \<open>
  A JavaScript number that is finite is modelled by a rational: rounding of doubles is not
  modelled. The only non-finite number the query functions can produce is NaN (from
  arithmetic on a nested metrics object), so computed numbers are \<open>Fin r\<close> or \<open>NaN\<close>.
  A JavaScript string is a \<open>string\<close> whose characters are code units below 256.
  \<open>compareEntities\<close> reads a metrics object as JavaScript does, through its own properties
  and then those of \<open>Object.prototype\<close> (\<open>js_get\<close>), and the routes read the registry
  the same way. The ranking comparator and the trend table are read among own properties
  only: names inherited from \<open>Object.prototype\<close> are outside what is stated about them.
\<close>

datatype EntityType = Author | Institution | Journal

datatype jsnum = Fin rat | NaN

text \<open>A value stored under a metrics key: a number, or one nested object of numbers
  (\<open>outputsInTopCitationPercentiles\<close> of an author).\<close>

datatype jsval = VNum rat | VObj "(string \<times> rat) list"

text \<open>What \<open>obj[key]\<close> yields on an object literal when it is not \<open>undefined\<close>: an own
  property's value, or the member of that name inherited from \<open>Object.prototype\<close> (a
  built-in function; the prototype object itself for \<open>__proto__\<close>).\<close>

datatype jsprop = Own jsval | Inherited string

text \<open>The three entity kinds share \<open>id\<close>, \<open>name\<close> and \<open>metrics\<close>, the only fields the
  queries read; \<open>entity_attr\<close> holds the kind's own field (affiliation, country or
  publisher).\<close>

record Entity =
  entity_id :: string
  entity_name :: string
  entity_attr :: "string option"
  metrics :: "(string \<times> jsval) list"

record TrendPoint =
  year :: rat
  pvalue :: rat

record ComparisonSide =
  side_id :: string
  side_name :: string
  side_value :: jsprop

record Comparison =
  entityA :: ComparisonSide
  entityB :: ComparisonSide
  difference :: jsnum
  percentDifference :: jsnum

text \<open>The module-level collections the queries read, passed explicitly.\<close>

record Dataset =
  authors :: "Entity list"
  institutions :: "Entity list"
  journals :: "Entity list"
  trends :: "(string \<times> TrendPoint list) list"

definition mockAuthors :: "Entity list" where
  "mockAuthors =
    [\<lparr>entity_id = ''auth_001'', entity_name = ''Dr. Sarah Chen'', entity_attr = Some ''MIT'',
      metrics = [(''publications'', VNum 156), (''citations'', VNum 4823), (''hIndex'', VNum 42),
        (''fieldWeightedCitationImpact'', VNum (234 / 100)),
        (''outputsInTopCitationPercentiles'',
           VObj [(''top1'', 12), (''top5'', 28), (''top10'', 45)])]\<rparr>,
     \<lparr>entity_id = ''auth_002'', entity_name = ''Prof. James Anderson'',
      entity_attr = Some ''Stanford University'',
      metrics = [(''publications'', VNum 203), (''citations'', VNum 8912), (''hIndex'', VNum 58),
        (''fieldWeightedCitationImpact'', VNum (312 / 100)),
        (''outputsInTopCitationPercentiles'',
           VObj [(''top1'', 18), (''top5'', 42), (''top10'', 67)])]\<rparr>,
     \<lparr>entity_id = ''auth_003'', entity_name = ''Dr. Maria Rodriguez'',
      entity_attr = Some ''Cambridge University'',
      metrics = [(''publications'', VNum 89), (''citations'', VNum 2134), (''hIndex'', VNum 31),
        (''fieldWeightedCitationImpact'', VNum (187 / 100)),
        (''outputsInTopCitationPercentiles'',
           VObj [(''top1'', 5), (''top5'', 15), (''top10'', 23)])]\<rparr>]"

definition mockInstitutions :: "Entity list" where
  "mockInstitutions =
    [\<lparr>entity_id = ''inst_001'', entity_name = ''Massachusetts Institute of Technology'',
      entity_attr = Some ''United States'',
      metrics = [(''publications'', VNum 12456), (''citations'', VNum 342891),
        (''collaborationRate'', VNum (68 / 100)),
        (''fieldWeightedCitationImpact'', VNum (289 / 100)),
        (''academicCorporateCollaboration'', VNum (23 / 100))]\<rparr>,
     \<lparr>entity_id = ''inst_002'', entity_name = ''University of Oxford'',
      entity_attr = Some ''United Kingdom'',
      metrics = [(''publications'', VNum 15234), (''citations'', VNum 412567),
        (''collaborationRate'', VNum (72 / 100)),
        (''fieldWeightedCitationImpact'', VNum (312 / 100)),
        (''academicCorporateCollaboration'', VNum (18 / 100))]\<rparr>,
     \<lparr>entity_id = ''inst_003'', entity_name = ''ETH Zurich'',
      entity_attr = Some ''Switzerland'',
      metrics = [(''publications'', VNum 8923), (''citations'', VNum 198234),
        (''collaborationRate'', VNum (65 / 100)),
        (''fieldWeightedCitationImpact'', VNum (256 / 100)),
        (''academicCorporateCollaboration'', VNum (31 / 100))]\<rparr>]"

definition mockJournals :: "Entity list" where
  "mockJournals =
    [\<lparr>entity_id = ''jour_001'', entity_name = ''Nature'', entity_attr = Some ''Springer Nature'',
      metrics = [(''citesPerDoc'', VNum (423 / 10)), (''sjr'', VNum (1423 / 100)),
        (''snip'', VNum (892 / 100)), (''percentCited'', VNum (942 / 10))]\<rparr>,
     \<lparr>entity_id = ''jour_002'', entity_name = ''Science'', entity_attr = Some ''AAAS'',
      metrics = [(''citesPerDoc'', VNum (387 / 10)), (''sjr'', VNum (1345 / 100)),
        (''snip'', VNum (781 / 100)), (''percentCited'', VNum (928 / 10))]\<rparr>,
     \<lparr>entity_id = ''jour_003'', entity_name = ''Cell'', entity_attr = Some ''Elsevier'',
      metrics = [(''citesPerDoc'', VNum (352 / 10)), (''sjr'', VNum (1289 / 100)),
        (''snip'', VNum (723 / 100)), (''percentCited'', VNum (915 / 10))]\<rparr>]"

definition mockTrends :: "(string \<times> TrendPoint list) list" where
  "mockTrends =
    [(''auth_001'',
       [\<lparr>year = 2019, pvalue = 12\<rparr>, \<lparr>year = 2020, pvalue = 15\<rparr>, \<lparr>year = 2021, pvalue = 18\<rparr>,
        \<lparr>year = 2022, pvalue = 22\<rparr>, \<lparr>year = 2023, pvalue = 19\<rparr>]),
     (''inst_001'',
       [\<lparr>year = 2019, pvalue = 11234\<rparr>, \<lparr>year = 2020, pvalue = 11892\<rparr>,
        \<lparr>year = 2021, pvalue = 12156\<rparr>, \<lparr>year = 2022, pvalue = 12389\<rparr>,
        \<lparr>year = 2023, pvalue = 12456\<rparr>]),
     (''jour_001'',
       [\<lparr>year = 2019, pvalue = 892\<rparr>, \<lparr>year = 2020, pvalue = 923\<rparr>, \<lparr>year = 2021, pvalue = 945\<rparr>,
        \<lparr>year = 2022, pvalue = 978\<rparr>, \<lparr>year = 2023, pvalue = 1012\<rparr>])]"

definition mockData :: Dataset where
  "mockData = \<lparr>authors = mockAuthors, institutions = mockInstitutions,
     journals = mockJournals, trends = mockTrends\<rparr>"

text \<open>The collection a \<open>switch (entityType)\<close> selects.\<close>

definition collection :: "Dataset \<Rightarrow> EntityType \<Rightarrow> Entity list" where
  "collection ds entityType =
     (case entityType of Author \<Rightarrow> authors ds | Institution \<Rightarrow> institutions ds
      | Journal \<Rightarrow> journals ds)"

section \<open>JavaScript primitives used by the queries\<close>

text \<open>\<open>ToNumber\<close> of a stored value: a plain object converts to NaN.\<close>

fun to_number :: "jsval \<Rightarrow> jsnum" where
  "to_number (VNum r) = Fin r"
| "to_number (VObj _) = NaN"

text \<open>The property names every object literal inherits from \<open>Object.prototype\<close>.\<close>

definition object_prototype_keys :: "string list" where
  "object_prototype_keys =
     [''constructor'', ''__defineGetter__'', ''__defineSetter__'', ''hasOwnProperty'',
      ''__lookupGetter__'', ''__lookupSetter__'', ''isPrototypeOf'', ''propertyIsEnumerable'',
      ''toString'', ''valueOf'', ''__proto__'', ''toLocaleString'']"

text \<open>\<open>obj[key]\<close>: \<open>None\<close> is \<open>undefined\<close>.\<close>

definition js_get :: "(string \<times> jsval) list \<Rightarrow> string \<Rightarrow> jsprop option" where
  "js_get obj key =
     (case map_of obj key of
        Some v \<Rightarrow> Some (Own v)
      | None \<Rightarrow> if key \<in> set object_prototype_keys then Some (Inherited key) else None)"

text \<open>\<open>ToNumber\<close> of a looked-up value: a function or an object converts to NaN.\<close>

fun prop_to_number :: "jsprop \<Rightarrow> jsnum" where
  "prop_to_number (Own v) = to_number v"
| "prop_to_number (Inherited _) = NaN"

text \<open>\<open>x == y\<close> on two numbers: NaN is equal to nothing, itself included.\<close>

fun js_eq :: "jsnum \<Rightarrow> jsnum \<Rightarrow> bool" where
  "js_eq (Fin a) (Fin b) = (a = b)"
| "js_eq _ _ = False"

fun js_sub :: "jsnum \<Rightarrow> jsnum \<Rightarrow> jsnum" where
  "js_sub (Fin a) (Fin b) = Fin (a - b)"
| "js_sub _ _ = NaN"

fun js_mul :: "jsnum \<Rightarrow> jsnum \<Rightarrow> jsnum" where
  "js_mul (Fin a) (Fin b) = Fin (a * b)"
| "js_mul _ _ = NaN"

text \<open>Division is only reached with a divisor that passed \<open>valueB !== 0\<close>; a zero divisor,
  which JavaScript maps to an infinity or to NaN, is outside the two-constructor number
  type and is mapped to NaN.\<close>

fun js_div :: "jsnum \<Rightarrow> jsnum \<Rightarrow> jsnum" where
  "js_div (Fin a) (Fin b) = (if b = 0 then NaN else Fin (a / b))"
| "js_div _ _ = NaN"

fun js_neg :: "jsnum \<Rightarrow> jsnum" where
  "js_neg (Fin a) = Fin (- a)"
| "js_neg NaN = NaN"

text \<open>\<open>ToIntegerOrInfinity\<close> of a finite number truncates towards zero.\<close>

definition to_integer :: "rat \<Rightarrow> int" where
  "to_integer r = (if r < 0 then - \<lfloor>- r\<rfloor> else \<lfloor>r\<rfloor>)"

text \<open>\<open>Array.prototype.slice(start, end)\<close>: a negative index counts from the end, and both
  are clamped to the array.\<close>

definition relative_index :: "rat \<Rightarrow> nat \<Rightarrow> nat" where
  "relative_index r len =
     (let i = to_integer r in if i < 0 then nat (max (int len + i) 0) else min (nat i) len)"

definition slice :: "'a list \<Rightarrow> rat \<Rightarrow> rat \<Rightarrow> 'a list" where
  "slice xs start end' =
     (let k = relative_index start (length xs); final = relative_index end' (length xs)
      in take (final - k) (drop k xs))"

text \<open>\<open>String.prototype.toLowerCase\<close> on code units below 256: the letters A to Z and the
  Latin-1 capitals (192 to 222 except the multiplication sign 215) move up by 32.\<close>

definition lower_char :: "char \<Rightarrow> char" where
  "lower_char c =
     (let n = (of_char c :: nat)
      in if (65 \<le> n \<and> n \<le> 90) \<or> (192 \<le> n \<and> n \<le> 222 \<and> n \<noteq> 215)
         then char_of (n + 32) else c)"

definition toLowerCase :: "string \<Rightarrow> string" where
  "toLowerCase s = map lower_char s"

text \<open>\<open>s.includes(searchString)\<close>: \<open>searchString\<close> occurs in \<open>s\<close> at some position.\<close>

fun js_includes :: "string \<Rightarrow> string \<Rightarrow> bool" where
  "js_includes [] searchString = (searchString = [])"
| "js_includes (c # cs) searchString = (prefix searchString (c # cs) \<or> js_includes cs searchString)"

text \<open>\<open>Array.prototype.sort(compareFn)\<close>: the sort is stable, and a positive result of
  \<open>compareFn a b\<close> puts \<open>b\<close> before \<open>a\<close>; a NaN result counts as 0. ECMAScript fixes the
  result only for a consistent comparator, where every stable sort agrees; the model is
  the stable insertion sort.\<close>

fun js_positive :: "jsnum \<Rightarrow> bool" where
  "js_positive (Fin r) = (r > 0)"
| "js_positive NaN = False"

fun insert_sorted :: "('a \<Rightarrow> 'a \<Rightarrow> jsnum) \<Rightarrow> 'a \<Rightarrow> 'a list \<Rightarrow> 'a list" where
  "insert_sorted cmp x [] = [x]"
| "insert_sorted cmp x (y # ys) =
     (if js_positive (cmp x y) then y # insert_sorted cmp x ys else x # y # ys)"

definition js_sort :: "('a \<Rightarrow> 'a \<Rightarrow> jsnum) \<Rightarrow> 'a list \<Rightarrow> 'a list" where
  "js_sort cmp xs = foldr (insert_sorted cmp) xs []"

section \<open>Query functions (queries.ts)\<close>

definition getEntity :: "Dataset \<Rightarrow> EntityType \<Rightarrow> string \<Rightarrow> Entity option" where
  "getEntity ds entityType entityId =
     (case entityType of
        Author \<Rightarrow> find (\<lambda>a. entity_id a = entityId) (authors ds)
      | Institution \<Rightarrow> find (\<lambda>i. entity_id i = entityId) (institutions ds)
      | Journal \<Rightarrow> find (\<lambda>j. entity_id j = entityId) (journals ds))"

definition searchEntities :: "Dataset \<Rightarrow> EntityType \<Rightarrow> string \<Rightarrow> rat \<Rightarrow> Entity list" where
  "searchEntities ds entityType query limit =
     (let queryLower = toLowerCase query;
          results =
            (case entityType of
               Author \<Rightarrow>
                 filter (\<lambda>a. js_includes (toLowerCase (entity_name a)) queryLower) (authors ds)
             | Institution \<Rightarrow>
                 filter (\<lambda>i. js_includes (toLowerCase (entity_name i)) queryLower) (institutions ds)
             | Journal \<Rightarrow>
                 filter (\<lambda>j. js_includes (toLowerCase (entity_name j)) queryLower) (journals ds))
      in slice results 0 limit)"

text \<open>\<open>metricNames\<close> is destructured away: the function never reads it.\<close>

definition getMetrics ::
  "Dataset \<Rightarrow> EntityType \<Rightarrow> string \<Rightarrow> string list option \<Rightarrow> (string \<times> jsval) list option" where
  "getMetrics ds entityType entityId metricNames =
     (case getEntity ds entityType entityId of
        None \<Rightarrow> None
      | Some entity \<Rightarrow> Some (metrics entity))"

definition compareEntities ::
  "Dataset \<Rightarrow> EntityType \<Rightarrow> string \<Rightarrow> string \<Rightarrow> string \<Rightarrow> Comparison option" where
  "compareEntities ds entityType entityIdA entityIdB metric =
     (case (getEntity ds entityType entityIdA, getEntity ds entityType entityIdB) of
        (Some eA, Some eB) \<Rightarrow>
          (case (js_get (metrics eA) metric, js_get (metrics eB) metric) of
             (Some valueA, Some valueB) \<Rightarrow>
               Some \<lparr>entityA = \<lparr>side_id = entity_id eA, side_name = entity_name eA,
                                side_value = valueA\<rparr>,
                     entityB = \<lparr>side_id = entity_id eB, side_name = entity_name eB,
                                side_value = valueB\<rparr>,
                     difference = js_sub (prop_to_number valueA) (prop_to_number valueB),
                     percentDifference =
                       (if valueB \<noteq> Own (VNum 0)
                        then js_mul (js_div (js_sub (prop_to_number valueA)
                                                    (prop_to_number valueB))
                                            (prop_to_number valueB)) (Fin 100)
                        else Fin 0)\<rparr>
           | _ \<Rightarrow> None)
      | _ \<Rightarrow> None)"

text \<open>\<open>if (startYear)\<close> tests truthiness: an omitted bound and the number 0 are both
  falsy.\<close>

definition truthy_number :: "rat option \<Rightarrow> bool" where
  "truthy_number n = (case n of None \<Rightarrow> False | Some r \<Rightarrow> r \<noteq> 0)"

definition getTrend ::
  "Dataset \<Rightarrow> string \<Rightarrow> string \<Rightarrow> rat option \<Rightarrow> rat option \<Rightarrow> TrendPoint list option" where
  "getTrend ds entityId metric startYear endYear =
     (case map_of (trends ds) entityId of
        None \<Rightarrow> None
      | Some trendData \<Rightarrow>
          (let filtered = trendData;
               filtered = (if truthy_number startYear
                           then filter (\<lambda>point. year point \<ge> the startYear) filtered
                           else filtered);
               filtered = (if truthy_number endYear
                           then filter (\<lambda>point. year point \<le> the endYear) filtered
                           else filtered)
           in Some filtered))"

text \<open>\<open>metricsA[metric] || 0\<close>: an undefined value and the number 0 are falsy and give 0;
  an object is truthy and is kept.\<close>

definition or_zero :: "jsval option \<Rightarrow> jsval" where
  "or_zero v =
     (case v of
        None \<Rightarrow> VNum 0
      | Some (VNum r) \<Rightarrow> (if r = 0 then VNum 0 else VNum r)
      | Some (VObj obj) \<Rightarrow> VObj obj)"

definition compareFn :: "string \<Rightarrow> Entity \<Rightarrow> Entity \<Rightarrow> jsnum" where
  "compareFn metric a b =
     (let valueA = or_zero (map_of (metrics a) metric);
          valueB = or_zero (map_of (metrics b) metric)
      in js_sub (to_number valueB) (to_number valueA))"

definition getTopEntities :: "Dataset \<Rightarrow> EntityType \<Rightarrow> string \<Rightarrow> rat \<Rightarrow> Entity list" where
  "getTopEntities ds entityType metric limit =
     (let entities =
            (case entityType of Author \<Rightarrow> authors ds | Institution \<Rightarrow> institutions ds
             | Journal \<Rightarrow> journals ds);
          entities = js_sort (compareFn metric) entities
      in slice entities 0 limit)"

section \<open>Schema validation (the zod library)\<close>

text \<open>
  Request bodies and rendered schemas are JSON values; \<open>JUndefined\<close> is the JavaScript
  \<open>undefined\<close> (a missing property, dropped when a response is serialised).
\<close>

datatype json =
    JUndefined
  | JNull
  | JBool bool
  | JNum rat
  | JStr string
  | JArr "json list"
  | JObj "(string \<times> json) list"

text \<open>
  The schema kinds the registry builds, each with the description \<open>.describe\<close> attached
  to that node. \<open>z.number().optional().default(10)\<close> is
  \<open>ZodDefault (ZodOptional (ZodNumber _) _) (JNum 10) _\<close>.
\<close>

datatype ZodType =
    ZodString "string option"
  | ZodNumber "string option"
  | ZodEnum "string list" "string option"
  | ZodArray ZodType "string option"
  | ZodOptional ZodType "string option"
  | ZodDefault ZodType json "string option"
  | ZodObject "(string \<times> ZodType) list" "string option"

text \<open>
  \<open>schema.parse\<close> belongs to zod, not to the repository. It is modelled for these schema
  kinds as zod documents it: a value of the wrong kind is an \<open>invalid_type\<close> issue at its
  path, an object is parsed key by key with unknown keys stripped and all issues
  collected, \<open>optional\<close> accepts \<open>undefined\<close>, \<open>default\<close> replaces \<open>undefined\<close> by the default
  before parsing. An issue keeps its code and path; its message is left out. \<open>Inl\<close> is a
  thrown \<open>ZodError\<close> with its issues.
\<close>

datatype PathSeg = Key string | Index nat

record ZodIssue =
  code :: string
  path :: "PathSeg list"

type_synonym 'a parsed = "ZodIssue list + 'a"

fun issues_of :: "'a parsed \<Rightarrow> ZodIssue list" where
  "issues_of (Inl issues) = issues"
| "issues_of (Inr _) = []"

fun parsed_ok :: "'a parsed \<Rightarrow> bool" where
  "parsed_ok (Inl _) = False"
| "parsed_ok (Inr _) = True"

fun values_of :: "'a parsed \<Rightarrow> 'a list" where
  "values_of (Inl _) = []"
| "values_of (Inr x) = [x]"

definition invalid_type :: "PathSeg list \<Rightarrow> json parsed" where
  "invalid_type p = Inl [\<lparr>code = ''invalid_type'', path = p\<rparr>]"

fun zod_parse :: "ZodType \<Rightarrow> PathSeg list \<Rightarrow> json \<Rightarrow> json parsed" where
  "zod_parse (ZodString d) p v = (case v of JStr s \<Rightarrow> Inr (JStr s) | _ \<Rightarrow> invalid_type p)"
| "zod_parse (ZodNumber d) p v = (case v of JNum r \<Rightarrow> Inr (JNum r) | _ \<Rightarrow> invalid_type p)"
| "zod_parse (ZodEnum options d) p v =
     (case v of
        JStr s \<Rightarrow> if s \<in> set options then Inr (JStr s)
                  else Inl [\<lparr>code = ''invalid_enum_value'', path = p\<rparr>]
      | _ \<Rightarrow> invalid_type p)"
| "zod_parse (ZodArray element d) p v =
     (case v of
        JArr xs \<Rightarrow>
          (let rs = map (\<lambda>(i, x). zod_parse element (p @ [Index i]) x) (enumerate 0 xs)
           in if list_all parsed_ok rs then Inr (JArr (concat (map values_of rs)))
              else Inl (concat (map issues_of rs)))
      | _ \<Rightarrow> invalid_type p)"
| "zod_parse (ZodOptional inner d) p v =
     (case v of JUndefined \<Rightarrow> Inr JUndefined | _ \<Rightarrow> zod_parse inner p v)"
| "zod_parse (ZodDefault inner dflt d) p v =
     (case v of JUndefined \<Rightarrow> zod_parse inner p dflt | _ \<Rightarrow> zod_parse inner p v)"
| "zod_parse (ZodObject shape d) p v =
     (case v of
        JObj kvs \<Rightarrow>
          (let rs = map (\<lambda>(key, t).
                      (key, key \<in> fst ` set kvs,
                       zod_parse t (p @ [Key key])
                         (case map_of kvs key of Some x \<Rightarrow> x | None \<Rightarrow> JUndefined))) shape
           in if list_all (\<lambda>(key, present, r). parsed_ok r) rs
              then Inr (JObj (concat (map (\<lambda>(key, present, r).
                     filter (\<lambda>(key, x). x \<noteq> JUndefined \<or> present)
                       (map (Pair key) (values_of r))) rs)))
              else Inl (concat (map (\<lambda>(key, present, r). issues_of r) rs)))
      | _ \<Rightarrow> invalid_type p)"

text \<open>zod's \<open>isOptional()\<close> is \<open>safeParse(undefined).success\<close>.\<close>

definition isOptional :: "ZodType \<Rightarrow> bool" where
  "isOptional t = parsed_ok (zod_parse t [] JUndefined)"

section \<open>Parameter schemas (queries.ts)\<close>

definition entityTypeEnum :: "string option \<Rightarrow> ZodType" where
  "entityTypeEnum d = ZodEnum [''author'', ''institution'', ''journal''] d"

definition getEntitySchema :: ZodType where
  "getEntitySchema = ZodObject
     [(''entityType'', entityTypeEnum (Some ''Type of entity to retrieve'')),
      (''entityId'', ZodString (Some ''Unique identifier for the entity''))] None"

definition searchEntitiesSchema :: ZodType where
  "searchEntitiesSchema = ZodObject
     [(''entityType'', entityTypeEnum (Some ''Type of entity to search'')),
      (''query'', ZodString (Some ''Search query string'')),
      (''limit'', ZodDefault (ZodOptional (ZodNumber None) None) (JNum 10)
         (Some ''Maximum number of results''))] None"

definition getMetricsSchema :: ZodType where
  "getMetricsSchema = ZodObject
     [(''entityType'', entityTypeEnum (Some ''Type of entity'')),
      (''entityId'', ZodString (Some ''Entity identifier'')),
      (''metricNames'', ZodOptional (ZodArray (ZodString None) None)
         (Some ''Specific metrics to retrieve (all if not specified)''))] None"

definition compareEntitiesSchema :: ZodType where
  \<open>compareEntitiesSchema = ZodObject
     [(''entityType'', entityTypeEnum (Some ''Type of entities to compare'')),
      (''entityIdA'', ZodString (Some ''First entity identifier'')),
      (''entityIdB'', ZodString (Some ''Second entity identifier'')),
      (''metric'', ZodString
         (Some ''Metric to compare (e.g., "publications", "citations", "hIndex")''))] None\<close>

definition getTrendSchema :: ZodType where
  "getTrendSchema = ZodObject
     [(''entityId'', ZodString (Some ''Entity identifier'')),
      (''metric'', ZodString (Some ''Metric to track over time'')),
      (''startYear'', ZodOptional (ZodNumber None)
         (Some ''Start year (defaults to earliest available)'')),
      (''endYear'', ZodOptional (ZodNumber None)
         (Some ''End year (defaults to latest available)''))] None"

definition getTopEntitiesSchema :: ZodType where
  "getTopEntitiesSchema = ZodObject
     [(''entityType'', entityTypeEnum (Some ''Type of entity'')),
      (''metric'', ZodString (Some ''Metric to rank by'')),
      (''limit'', ZodDefault (ZodOptional (ZodNumber None) None) (JNum 10)
         (Some ''Number of top entities to return''))] None"

section \<open>Registry and routes (queries.ts, index.ts)\<close>

text \<open>
  The registry stores each query function behind the untyped call
  \<open>queryConfig.function(validatedParams as any)\<close>. The wrappers below destructure the
  validated parameters and call the typed function. \<open>Inl TypeError\<close> stands for
  parameters outside the function's declared parameter type.
\<close>

datatype QueryResult =
    EntityResult "Entity option"
  | EntityListResult "Entity list"
  | MetricsResult "(string \<times> jsval) list option"
  | ComparisonResult "Comparison option"
  | TrendResult "TrendPoint list option"

datatype exn = TypeError

fun field :: "json \<Rightarrow> string \<Rightarrow> json" where
  "field (JObj kvs) key = (case map_of kvs key of Some v \<Rightarrow> v | None \<Rightarrow> JUndefined)"
| "field _ key = JUndefined"

fun as_entityType :: "json \<Rightarrow> EntityType option" where
  "as_entityType (JStr s) =
     (if s = ''author'' then Some Author
      else if s = ''institution'' then Some Institution
      else if s = ''journal'' then Some Journal
      else None)"
| "as_entityType _ = None"

fun as_string :: "json \<Rightarrow> string option" where
  "as_string (JStr s) = Some s"
| "as_string _ = None"

fun as_number :: "json \<Rightarrow> rat option" where
  "as_number (JNum r) = Some r"
| "as_number _ = None"

fun as_optional :: "(json \<Rightarrow> 'a option) \<Rightarrow> json \<Rightarrow> 'a option option" where
  "as_optional f JUndefined = Some None"
| "as_optional f v = map_option Some (f v)"

fun as_strings :: "json \<Rightarrow> string list option" where
  "as_strings (JArr xs) =
     (if list_all (\<lambda>x. as_string x \<noteq> None) xs then Some (map (the \<circ> as_string) xs) else None)"
| "as_strings _ = None"

definition getEntity_fn :: "Dataset \<Rightarrow> json \<Rightarrow> exn + QueryResult" where
  "getEntity_fn ds params =
     (case (as_entityType (field params ''entityType''), as_string (field params ''entityId'')) of
        (Some entityType, Some entityId) \<Rightarrow> Inr (EntityResult (getEntity ds entityType entityId))
      | _ \<Rightarrow> Inl TypeError)"

definition searchEntities_fn :: "Dataset \<Rightarrow> json \<Rightarrow> exn + QueryResult" where
  "searchEntities_fn ds params =
     (case (as_entityType (field params ''entityType''), as_string (field params ''query''),
            as_number (field params ''limit'')) of
        (Some entityType, Some query, Some limit) \<Rightarrow>
          Inr (EntityListResult (searchEntities ds entityType query limit))
      | _ \<Rightarrow> Inl TypeError)"

definition getMetrics_fn :: "Dataset \<Rightarrow> json \<Rightarrow> exn + QueryResult" where
  "getMetrics_fn ds params =
     (case (as_entityType (field params ''entityType''), as_string (field params ''entityId''),
            as_optional as_strings (field params ''metricNames'')) of
        (Some entityType, Some entityId, Some metricNames) \<Rightarrow>
          Inr (MetricsResult (getMetrics ds entityType entityId metricNames))
      | _ \<Rightarrow> Inl TypeError)"

definition compareEntities_fn :: "Dataset \<Rightarrow> json \<Rightarrow> exn + QueryResult" where
  "compareEntities_fn ds params =
     (case (as_entityType (field params ''entityType''), as_string (field params ''entityIdA''),
            as_string (field params ''entityIdB''), as_string (field params ''metric'')) of
        (Some entityType, Some entityIdA, Some entityIdB, Some metric) \<Rightarrow>
          Inr (ComparisonResult (compareEntities ds entityType entityIdA entityIdB metric))
      | _ \<Rightarrow> Inl TypeError)"

definition getTrend_fn :: "Dataset \<Rightarrow> json \<Rightarrow> exn + QueryResult" where
  "getTrend_fn ds params =
     (case (as_string (field params ''entityId''), as_string (field params ''metric''),
            as_optional as_number (field params ''startYear''),
            as_optional as_number (field params ''endYear'')) of
        (Some entityId, Some metric, Some startYear, Some endYear) \<Rightarrow>
          Inr (TrendResult (getTrend ds entityId metric startYear endYear))
      | _ \<Rightarrow> Inl TypeError)"

definition getTopEntities_fn :: "Dataset \<Rightarrow> json \<Rightarrow> exn + QueryResult" where
  "getTopEntities_fn ds params =
     (case (as_entityType (field params ''entityType''), as_string (field params ''metric''),
            as_number (field params ''limit'')) of
        (Some entityType, Some metric, Some limit) \<Rightarrow>
          Inr (EntityListResult (getTopEntities ds entityType metric limit))
      | _ \<Rightarrow> Inl TypeError)"

record QueryConfig =
  func :: "Dataset \<Rightarrow> json \<Rightarrow> exn + QueryResult"
  schema :: ZodType
  description :: string

definition queryFunctions :: "(string \<times> QueryConfig) list" where
  "queryFunctions =
     [(''getEntity'', \<lparr>func = getEntity_fn, schema = getEntitySchema, description =
         ''Retrieve a specific entity (author, institution, or journal) by its unique identifier''\<rparr>),
      (''searchEntities'', \<lparr>func = searchEntities_fn, schema = searchEntitiesSchema,
         description = ''Search for entities by name or keywords''\<rparr>),
      (''getMetrics'', \<lparr>func = getMetrics_fn, schema = getMetricsSchema,
         description = ''Get all metrics for a specific entity''\<rparr>),
      (''compareEntities'', \<lparr>func = compareEntities_fn, schema = compareEntitiesSchema,
         description = ''Compare two entities on a specific metric and get the difference''\<rparr>),
      (''getTrend'', \<lparr>func = getTrend_fn, schema = getTrendSchema,
         description = ''Get trend data for an entity metric over a time period''\<rparr>),
      (''getTopEntities'', \<lparr>func = getTopEntities_fn, schema = getTopEntitiesSchema,
         description = ''Get the top-performing entities ranked by a specific metric''\<rparr>)]"

text \<open>\<open>zodToJsonSchema\<close> (index.ts). \<open>describe\<close> renders \<open>schema.description\<close>;
  \<open>spread_with\<close> is the object literal \<open>{ ...x, default: v }\<close>. The final
  \<open>{ type: 'unknown' }\<close> is not reached by the seven schema kinds.\<close>

fun describe :: "string option \<Rightarrow> json" where
  "describe None = JUndefined"
| "describe (Some s) = JStr s"

fun spread_with :: "json \<Rightarrow> string \<Rightarrow> json \<Rightarrow> json" where
  "spread_with (JObj kvs) key v =
     (if key \<in> fst ` set kvs then JObj (map (\<lambda>(k, x). if k = key then (k, v) else (k, x)) kvs)
      else JObj (kvs @ [(key, v)]))"
| "spread_with _ key v = JObj [(key, v)]"

fun zodToJsonSchema :: "ZodType \<Rightarrow> json" where
  "zodToJsonSchema (ZodObject shape d) =
     (let properties = map (\<lambda>(key, value). (key, zodToJsonSchema value)) shape;
          required = map fst (filter (\<lambda>(key, value). \<not> isOptional value) shape)
      in JObj [(''type'', JStr ''object''), (''properties'', JObj properties),
               (''required'', if length required > 0 then JArr (map JStr required)
                              else JUndefined)])"
| "zodToJsonSchema (ZodString d) = JObj [(''type'', JStr ''string''), (''description'', describe d)]"
| "zodToJsonSchema (ZodNumber d) = JObj [(''type'', JStr ''number''), (''description'', describe d)]"
| "zodToJsonSchema (ZodArray element d) =
     JObj [(''type'', JStr ''array''), (''items'', zodToJsonSchema element),
           (''description'', describe d)]"
| "zodToJsonSchema (ZodEnum options d) =
     JObj [(''type'', JStr ''string''), (''enum'', JArr (map JStr options)),
           (''description'', describe d)]"
| "zodToJsonSchema (ZodOptional inner d) = zodToJsonSchema inner"
| "zodToJsonSchema (ZodDefault inner dflt d) = spread_with (zodToJsonSchema inner) ''default'' dflt"

text \<open>\<open>GET /api/functions\<close>: the array under \<open>functions\<close>.\<close>

definition listFunctions :: "json list" where
  "listFunctions =
     map (\<lambda>(name, config).
            JObj [(''name'', JStr name), (''description'', JStr (description config)),
                  (''parameters'', zodToJsonSchema (schema config))]) queryFunctions"

text \<open>\<open>POST /api/batch\<close>. An item of the result is an object with some of the keys
  \<open>success\<close>, \<open>result\<close>, \<open>error\<close>, \<open>details\<close>; \<open>None\<close> is a key the object does not have.
  \<open>queries = None\<close> is a body whose \<open>queries\<close> is not an array. Each query is an object with
  a \<open>functionName\<close> and \<open>params\<close>. For a name inherited from \<open>Object.prototype\<close> the
  lookup \<open>queryFunctions[functionName]\<close> yields a built-in member, which is truthy and has
  no \<open>schema\<close>: \<open>queryConfig.schema.parse\<close> throws a \<open>TypeError\<close> inside the \<open>try\<close>.\<close>

record BatchItem =
  success :: "bool option"
  result :: "QueryResult option"
  error :: "string option"
  details :: "ZodIssue list option"

definition not_found_message :: "string \<Rightarrow> string" where
  "not_found_message functionName =
     ''Function '' @ [CHR 0x27] @ functionName @ [CHR 0x27] @ '' not found''"

definition processQuery :: "Dataset \<Rightarrow> string \<times> json \<Rightarrow> BatchItem" where
  "processQuery ds query =
     (let (functionName, params) = query
      in case map_of queryFunctions functionName of
           None \<Rightarrow>
             if functionName \<in> set object_prototype_keys
             then \<lparr>success = Some False, result = None, error = Some ''Execution failed'',
                   details = None\<rparr>
             else \<lparr>success = None, result = None,
                   error = Some (not_found_message functionName), details = None\<rparr>
         | Some queryConfig \<Rightarrow>
             (case zod_parse (schema queryConfig) [] params of
                Inl issues \<Rightarrow>
                  \<lparr>success = Some False, result = None, error = Some ''Invalid parameters'',
                   details = Some issues\<rparr>
              | Inr validatedParams \<Rightarrow>
                  (case func queryConfig ds validatedParams of
                     Inl e \<Rightarrow>
                       \<lparr>success = Some False, result = None, error = Some ''Execution failed'',
                        details = None\<rparr>
                   | Inr r \<Rightarrow>
                       \<lparr>success = Some True, result = Some r, error = None,
                        details = None\<rparr>)))"

datatype BatchResponse = BadRequest string | BatchResults "BatchItem list"

definition batchRoute :: "Dataset \<Rightarrow> (string \<times> json) list option \<Rightarrow> BatchResponse" where
  "batchRoute ds queries =
     (case queries of
        None \<Rightarrow> BadRequest ''queries must be an array''
      | Some qs \<Rightarrow> BatchResults (map (processQuery ds) qs))"

text \<open>\<open>POST /api/query/:functionName\<close>: the status and the body's keys.\<close>

record Response =
  status :: nat
  body_result :: "QueryResult option"
  body_error :: "string option"
  body_details :: "ZodIssue list option"

definition queryRoute :: "Dataset \<Rightarrow> string \<Rightarrow> json \<Rightarrow> Response" where
  "queryRoute ds functionName params =
     (case map_of queryFunctions functionName of
        None \<Rightarrow>
          if functionName \<in> set object_prototype_keys
          then \<lparr>status = 500, body_result = None,
                body_error = Some ''Internal server error'', body_details = None\<rparr>
          else \<lparr>status = 404, body_result = None,
                body_error = Some (not_found_message functionName), body_details = None\<rparr>
      | Some queryConfig \<Rightarrow>
          (case zod_parse (schema queryConfig) [] params of
             Inl issues \<Rightarrow>
               \<lparr>status = 400, body_result = None, body_error = Some ''Invalid parameters'',
                body_details = Some issues\<rparr>
           | Inr validatedParams \<Rightarrow>
               (case func queryConfig ds validatedParams of
                  Inl e \<Rightarrow>
                    \<lparr>status = 500, body_result = None,
                     body_error = Some ''Internal server error'', body_details = None\<rparr>
                | Inr r \<Rightarrow>
                    \<lparr>status = 200, body_result = Some r, body_error = None,
                     body_details = None\<rparr>)))"

section \<open>Reference notions of the specification\<close>

text \<open>The year filter as the specification words it: each bound inclusive, an omitted
  bound unbounded on that side.\<close>

definition in_range :: "rat option \<Rightarrow> rat option \<Rightarrow> TrendPoint \<Rightarrow> bool" where
  "in_range startYear endYear point =
     ((case startYear of None \<Rightarrow> True | Some s \<Rightarrow> year point \<ge> s) \<and>
      (case endYear of None \<Rightarrow> True | Some e \<Rightarrow> year point \<le> e))"

text \<open>A two-author dataset in which one author's \<open>citations\<close> is 0.\<close>

definition zeroData :: Dataset where
  "zeroData = \<lparr>authors =
      [\<lparr>entity_id = ''a'', entity_name = ''A'', entity_attr = None,
          metrics = [(''citations'', VNum 7)]\<rparr>,
       \<lparr>entity_id = ''b'', entity_name = ''B'', entity_attr = None,
          metrics = [(''citations'', VNum 0)]\<rparr>],
      institutions = [], journals = [], trends = []\<rparr>"

text \<open>Two strings that differ only in letter case, and a name that contains the query as
  a case-insensitive substring.\<close>

definition same_ignoring_case :: "string \<Rightarrow> string \<Rightarrow> bool" where
  "same_ignoring_case s t = list_all2 (\<lambda>a b. lower_char a = lower_char b) s t"

definition name_contains_ci :: "string \<Rightarrow> Entity \<Rightarrow> bool" where
  "name_contains_ci query e =
     (\<exists>pre s post. entity_name e = pre @ s @ post \<and> same_ignoring_case s query)"

text \<open>The value an entity is ranked by: its number under the metric key, 0 where the key
  is missing. \<open>numeric_metric\<close> holds where the key is missing or holds a number.\<close>

definition numeric_metric :: "string \<Rightarrow> Entity \<Rightarrow> bool" where
  "numeric_metric metric e =
     (case map_of (metrics e) metric of Some (VObj _) \<Rightarrow> False | _ \<Rightarrow> True)"

definition metric_value :: "string \<Rightarrow> Entity \<Rightarrow> rat" where
  "metric_value metric e = (case map_of (metrics e) metric of Some (VNum r) \<Rightarrow> r | _ \<Rightarrow> 0)"

text \<open>What the registered schema declares: a field is required when its schema is neither
  marked optional nor given a default. \<open>rendered_required\<close> and \<open>rendered_name\<close> read one
  entry of the introspection output.\<close>

fun marked_optional :: "ZodType \<Rightarrow> bool" where
  "marked_optional (ZodOptional inner d) = True"
| "marked_optional (ZodDefault inner dflt d) = marked_optional inner"
| "marked_optional _ = False"

fun has_default :: "ZodType \<Rightarrow> bool" where
  "has_default (ZodDefault inner dflt d) = True"
| "has_default (ZodOptional inner d) = has_default inner"
| "has_default _ = False"

fun shape_of :: "ZodType \<Rightarrow> (string \<times> ZodType) list" where
  "shape_of (ZodObject shape d) = shape"
| "shape_of _ = []"

definition declared_required :: "ZodType \<Rightarrow> string list" where
  "declared_required t =
     map fst (filter (\<lambda>(key, value). \<not> marked_optional value \<and> \<not> has_default value) (shape_of t))"

fun strings_of :: "json \<Rightarrow> string list" where
  "strings_of (JArr xs) = concat (map (\<lambda>x. case x of JStr s \<Rightarrow> [s] | _ \<Rightarrow> []) xs)"
| "strings_of _ = []"

definition rendered_required :: "json \<Rightarrow> string list" where
  "rendered_required f = strings_of (field (field f ''parameters'') ''required'')"

definition rendered_name :: "json \<Rightarrow> json" where
  "rendered_name f = field f ''name''"

section \<open>Entity lookup\<close>

lemma getEntity_find:
  "getEntity ds t i = find (\<lambda>e. entity_id e = i) (collection ds t)"
  by (cases t) (simp_all add: getEntity_def collection_def)

lemma find_distinct_key:
  "distinct (map f xs) \<Longrightarrow> e \<in> set xs \<Longrightarrow> find (\<lambda>x. f x = f e) xs = Some e"
  by (induction xs) (auto simp: image_iff)

text \<open>
  C8. For every entityType and entityId: if some entity with that id is present in the
  collection selected by entityType, \<open>getEntity\<close> returns a stored entity of that collection
  with that id (the stored entity itself where ids are unique); if no entity of the
  collection has the id, it returns the absent value. The function is total: no input
  makes it fail.
\<close>

theorem getEntity_present_or_absent:
  "((\<exists>e \<in> set (collection ds t). entity_id e = i) \<longrightarrow>
      (\<exists>e. getEntity ds t i = Some e \<and> e \<in> set (collection ds t) \<and> entity_id e = i))
   \<and> (\<forall>e. distinct (map entity_id (collection ds t)) \<and> e \<in> set (collection ds t)
          \<and> entity_id e = i \<longrightarrow> getEntity ds t i = Some e)
   \<and> ((\<forall>e \<in> set (collection ds t). entity_id e \<noteq> i) \<longrightarrow> getEntity ds t i = None)"
proof (intro conjI impI allI)
  assume "\<exists>e \<in> set (collection ds t). entity_id e = i"
  then obtain e where "find (\<lambda>e. entity_id e = i) (collection ds t) = Some e"
    by (cases "find (\<lambda>e. entity_id e = i) (collection ds t)") (auto simp: find_None_iff)
  then show "\<exists>e. getEntity ds t i = Some e \<and> e \<in> set (collection ds t) \<and> entity_id e = i"
    by (auto simp: getEntity_find find_Some_iff)
next
  fix e
  assume "distinct (map entity_id (collection ds t)) \<and> e \<in> set (collection ds t)
          \<and> entity_id e = i"
  then show "getEntity ds t i = Some e"
    using find_distinct_key [of entity_id "collection ds t" e] by (auto simp: getEntity_find)
next
  assume "\<forall>e \<in> set (collection ds t). entity_id e \<noteq> i"
  then show "getEntity ds t i = None"
    by (simp add: getEntity_find find_None_iff)
qed

lemma mock_authors_sel:
  "collection mockData Author = mockAuthors" "authors mockData = mockAuthors"
  by (simp_all add: collection_def mockData_def)

theorem getEntity_present_or_absent_witness:
  "(\<exists>e \<in> set (collection mockData Author). entity_id e = ''auth_001'')
   \<and> (\<exists>e. getEntity mockData Author ''auth_001'' = Some e
          \<and> e \<in> set (collection mockData Author) \<and> entity_id e = ''auth_001'')
   \<and> distinct (map entity_id (collection mockData Author))
   \<and> mockAuthors ! 0 \<in> set (collection mockData Author)
   \<and> entity_id (mockAuthors ! 0) = ''auth_001''
   \<and> getEntity mockData Author ''auth_001'' = Some (mockAuthors ! 0)
   \<and> ''nonexistent'' \<notin> set (map entity_id (collection mockData Author))
   \<and> getEntity mockData Author ''nonexistent'' = None"
proof -
  note s = getEntity_present_or_absent [of mockData Author "''auth_001''"]
  note t = getEntity_present_or_absent [of mockData Author "''nonexistent''"]
  have p: "\<exists>e \<in> set (collection mockData Author). entity_id e = ''auth_001''"
    by (simp add: mock_authors_sel mockAuthors_def)
  have d: "distinct (map entity_id (collection mockData Author))
     \<and> mockAuthors ! 0 \<in> set (collection mockData Author)
     \<and> entity_id (mockAuthors ! 0) = ''auth_001''"
    by (simp add: mock_authors_sel mockAuthors_def)
  have n: "''nonexistent'' \<notin> set (map entity_id (collection mockData Author))"
    by (simp add: mock_authors_sel mockAuthors_def)
  then have a: "\<forall>e \<in> set (collection mockData Author). entity_id e \<noteq> ''nonexistent''"
    by (force simp: image_iff)
  from s p have 1: "\<exists>e. getEntity mockData Author ''auth_001'' = Some e
          \<and> e \<in> set (collection mockData Author) \<and> entity_id e = ''auth_001''"
    by blast
  from s d have 2: "getEntity mockData Author ''auth_001'' = Some (mockAuthors ! 0)"
    by blast
  from t a have 3: "getEntity mockData Author ''nonexistent'' = None"
    by blast
  from p 1 d 2 n 3 show ?thesis
    by (intro conjI) blast+
qed

text \<open>
  C7. For every entityType, entityId and value of \<open>metricNames\<close>: \<open>getMetrics\<close> returns the
  full metrics mapping of the entity \<open>getEntity\<close> returns, whatever \<open>metricNames\<close> is, and
  is absent exactly when \<open>getEntity\<close> is.
\<close>

theorem getMetrics_ignores_filter:
  "getMetrics ds t i names = map_option metrics (getEntity ds t i)
   \<and> getMetrics ds t i names = getMetrics ds t i names'
   \<and> (getMetrics ds t i names = None) = (getEntity ds t i = None)"
  by (simp add: getMetrics_def split: option.splits)

theorem getMetrics_ignores_filter_witness:
  "getMetrics mockData Journal ''jour_003'' (Some [''sjr'']) =
     getMetrics mockData Journal ''jour_003'' None
   \<and> getMetrics mockData Journal ''jour_003'' (Some [''sjr'']) =
     Some [(''citesPerDoc'', VNum (352 / 10)), (''sjr'', VNum (1289 / 100)),
           (''snip'', VNum (723 / 100)), (''percentCited'', VNum (915 / 10))]"
proof -
  note s = getMetrics_ignores_filter [of mockData Journal "''jour_003''" "Some [''sjr'']" None]
  have e: "getEntity mockData Journal ''jour_003'' = Some (mockJournals ! 2)"
    by (simp add: getEntity_def mockData_def mockJournals_def)
  from s have a: "getMetrics mockData Journal ''jour_003'' (Some [''sjr'']) =
     getMetrics mockData Journal ''jour_003'' None"
    by blast
  from s e have "getMetrics mockData Journal ''jour_003'' (Some [''sjr'']) =
     Some (metrics (mockJournals ! 2))"
    by simp
  then have b: "getMetrics mockData Journal ''jour_003'' (Some [''sjr'']) =
     Some [(''citesPerDoc'', VNum (352 / 10)), (''sjr'', VNum (1289 / 100)),
           (''snip'', VNum (723 / 100)), (''percentCited'', VNum (915 / 10))]"
    by (simp add: mockJournals_def)
  from a b show ?thesis by (intro conjI)
qed

section \<open>Comparison\<close>

text \<open>The result is absent exactly when an entity is not found or the lookup of the metric
  is \<open>undefined\<close> on one side.\<close>

lemma compareEntities_absent_iff:
  "(compareEntities ds t a b m = None) =
     (getEntity ds t a = None \<or> getEntity ds t b = None \<or>
      (\<exists>eA eB. getEntity ds t a = Some eA \<and> getEntity ds t b = Some eB \<and>
         (js_get (metrics eA) m = None \<or> js_get (metrics eB) m = None)))"
  by (auto simp: compareEntities_def split: option.splits)

text \<open>
  C1. The claim: \<open>compareEntities\<close> is absent when the metric is not a key of one of the two
  entities' metrics. \<open>toString\<close> is a key of neither author's metrics, yet
  \<open>metricsA[metric]\<close> finds the function inherited from \<open>Object.prototype\<close>, which is not
  \<open>undefined\<close>: the comparison is returned, with \<open>difference\<close> and \<open>percentDifference\<close> NaN.
\<close>

theorem compareEntities_inherited_key_not_absent:
  "map_of (metrics (mockAuthors ! 0)) ''toString'' = None
   \<and> map_of (metrics (mockAuthors ! 1)) ''toString'' = None
   \<and> getEntity mockData Author ''auth_001'' = Some (mockAuthors ! 0)
   \<and> getEntity mockData Author ''auth_002'' = Some (mockAuthors ! 1)
   \<and> compareEntities mockData Author ''auth_001'' ''auth_002'' ''toString'' =
       Some \<lparr>entityA = \<lparr>side_id = ''auth_001'', side_name = ''Dr. Sarah Chen'',
                        side_value = Inherited ''toString''\<rparr>,
             entityB = \<lparr>side_id = ''auth_002'', side_name = ''Prof. James Anderson'',
                        side_value = Inherited ''toString''\<rparr>,
             difference = NaN, percentDifference = NaN\<rparr>"
  by (simp add: compareEntities_def getEntity_def mockData_def mockAuthors_def js_get_def
        object_prototype_keys_def)

text \<open>
  C6, as the code has it. Where both \<open>compareEntities(A, B, metric)\<close> and
  \<open>compareEntities(B, A, metric)\<close> are defined and both entities hold a finite number under
  the metric, \<open>difference_AB == -difference_BA\<close>; where B's value is 0 the percent
  difference of the first is 0 whatever A's value is, and for a non-zero number as A's
  value the reverse comparison's percent difference is -100, so the percent difference is
  not antisymmetric.
\<close>

theorem compareEntities_numeric_antisymmetry:
  "(\<forall>rab rba x y. compareEntities ds t a b m = Some rab \<and> compareEntities ds t b a m = Some rba
         \<and> side_value (entityA rab) = Own (VNum x) \<and> side_value (entityB rab) = Own (VNum y)
       \<longrightarrow> js_eq (difference rab) (js_neg (difference rba)))
   \<and> (\<forall>rab. compareEntities ds t a b m = Some rab \<and> side_value (entityB rab) = Own (VNum 0)
       \<longrightarrow> percentDifference rab = Fin 0)
   \<and> (\<forall>rab rba x. compareEntities ds t a b m = Some rab \<and> compareEntities ds t b a m = Some rba
         \<and> side_value (entityB rab) = Own (VNum 0) \<and> side_value (entityA rab) = Own (VNum x)
         \<and> x \<noteq> 0
       \<longrightarrow> percentDifference rab = Fin 0 \<and> percentDifference rba = Fin (- 100))"
proof (intro conjI allI impI)
  fix rab rba x y
  assume "compareEntities ds t a b m = Some rab \<and> compareEntities ds t b a m = Some rba
         \<and> side_value (entityA rab) = Own (VNum x) \<and> side_value (entityB rab) = Own (VNum y)"
  then show "js_eq (difference rab) (js_neg (difference rba))"
    by (auto simp: compareEntities_def split: option.splits)
next
  fix rab
  assume "compareEntities ds t a b m = Some rab \<and> side_value (entityB rab) = Own (VNum 0)"
  then show "percentDifference rab = Fin 0"
    by (auto simp: compareEntities_def split: option.splits)
next
  fix rab rba x
  assume h: "compareEntities ds t a b m = Some rab \<and> compareEntities ds t b a m = Some rba
         \<and> side_value (entityB rab) = Own (VNum 0) \<and> side_value (entityA rab) = Own (VNum x)
         \<and> x \<noteq> 0"
  then show "percentDifference rab = Fin 0"
    by (auto simp: compareEntities_def split: option.splits)
  from h show "percentDifference rba = Fin (- 100)"
    by (auto simp: compareEntities_def split: option.splits)
qed

text \<open>C6 as stated fails on the authors' nested metric: both comparisons are defined, both
  differences are NaN, and \<open>NaN == -NaN\<close> is false.\<close>

theorem compareEntities_nested_difference_nan:
  "map_option difference
     (compareEntities mockData Author ''auth_001'' ''auth_002''
        ''outputsInTopCitationPercentiles'') = Some NaN
   \<and> map_option difference
     (compareEntities mockData Author ''auth_002'' ''auth_001''
        ''outputsInTopCitationPercentiles'') = Some NaN
   \<and> \<not> js_eq NaN (js_neg NaN)"
  by (simp add: compareEntities_def getEntity_def mockData_def mockAuthors_def js_get_def)

lemma zeroData_compare:
  "compareEntities zeroData Author ''a'' ''b'' ''citations'' =
     Some \<lparr>entityA = \<lparr>side_id = ''a'', side_name = ''A'', side_value = Own (VNum 7)\<rparr>,
           entityB = \<lparr>side_id = ''b'', side_name = ''B'', side_value = Own (VNum 0)\<rparr>,
           difference = Fin 7, percentDifference = Fin 0\<rparr>"
  "compareEntities zeroData Author ''b'' ''a'' ''citations'' =
     Some \<lparr>entityA = \<lparr>side_id = ''b'', side_name = ''B'', side_value = Own (VNum 0)\<rparr>,
           entityB = \<lparr>side_id = ''a'', side_name = ''A'', side_value = Own (VNum 7)\<rparr>,
           difference = Fin (- 7), percentDifference = Fin (- 100)\<rparr>"
  by (simp_all add: compareEntities_def getEntity_def zeroData_def js_get_def)

theorem compareEntities_numeric_antisymmetry_witness:
  "(\<exists>rab rba. compareEntities zeroData Author ''a'' ''b'' ''citations'' = Some rab
      \<and> compareEntities zeroData Author ''b'' ''a'' ''citations'' = Some rba
      \<and> side_value (entityB rab) = Own (VNum 0) \<and> side_value (entityA rab) = Own (VNum 7)
      \<and> js_eq (difference rab) (js_neg (difference rba))
      \<and> percentDifference rab = Fin 0 \<and> percentDifference rba = Fin (- 100))"
proof -
  note s = compareEntities_numeric_antisymmetry [of zeroData Author "''a''" "''b''" "''citations''"]
  obtain rab rba where
    r: "compareEntities zeroData Author ''a'' ''b'' ''citations'' = Some rab"
       "compareEntities zeroData Author ''b'' ''a'' ''citations'' = Some rba"
       "side_value (entityB rab) = Own (VNum 0)" "side_value (entityA rab) = Own (VNum 7)"
    by (simp add: zeroData_compare)
  from s r have "js_eq (difference rab) (js_neg (difference rba))" by blast
  moreover from s r have "percentDifference rab = Fin 0 \<and> percentDifference rba = Fin (- 100)"
    by (metis zero_neq_numeral)
  ultimately show ?thesis using r by blast
qed

section \<open>Search\<close>

lemma js_includes_sublist: "js_includes s q = sublist q s"
  by (induction s) (auto simp: sublist_Cons_right)

lemma slice_from_zero: "0 \<le> limit \<Longrightarrow> slice xs 0 limit = take (nat \<lfloor>limit\<rfloor>) xs"
  by (simp add: slice_def relative_index_def to_integer_def Let_def min_def)

lemma searchEntities_filter:
  "searchEntities ds t q limit =
     slice (filter (\<lambda>e. js_includes (toLowerCase (entity_name e)) (toLowerCase q))
              (collection ds t)) 0 limit"
  by (cases t) (simp_all add: searchEntities_def collection_def)

lemma same_ignoring_case_iff: "same_ignoring_case s t = (toLowerCase s = toLowerCase t)"
  unfolding same_ignoring_case_def toLowerCase_def
  by (induction s arbitrary: t) (auto simp: list_all2_Cons1)

lemma sublist_map_iff:
  "sublist (map f q) (map f n) = (\<exists>pre s post. n = pre @ s @ post \<and> map f s = map f q)"
proof
  assume "sublist (map f q) (map f n)"
  then obtain ps ss where "map f n = ps @ map f q @ ss"
    by (auto simp: sublist_def)
  then obtain pre rest where n: "n = pre @ rest" and "map f q @ ss = map f rest"
    by (auto simp: map_eq_append_conv)
  then obtain s post where "rest = s @ post" and "map f s = map f q"
    by (auto simp: append_eq_map_conv)
  with n show "\<exists>pre s post. n = pre @ s @ post \<and> map f s = map f q"
    by blast
next
  assume "\<exists>pre s post. n = pre @ s @ post \<and> map f s = map f q"
  then obtain pre s post where "n = pre @ s @ post" and "map f s = map f q"
    by blast
  then have "map f n = map f pre @ map f q @ map f post"
    by simp
  then show "sublist (map f q) (map f n)"
    unfolding sublist_def by blast
qed

lemma name_contains_ci_iff:
  "name_contains_ci q e = js_includes (toLowerCase (entity_name e)) (toLowerCase q)"
  unfolding name_contains_ci_def same_ignoring_case_iff js_includes_sublist
  by (simp add: toLowerCase_def sublist_map_iff)

lemma name_contains_ci_fun:
  "name_contains_ci q = (\<lambda>e. js_includes (toLowerCase (entity_name e)) (toLowerCase q))"
  by (rule ext) (rule name_contains_ci_iff)

text \<open>
  C3, as the code has it. For every entityType, query and limit \<open>\<ge> 0\<close>: \<open>searchEntities\<close>
  returns the entities of the collection whose name contains the query as a
  case-insensitive substring, in collection order, cut to the first \<open>\<lfloor>limit\<rfloor>\<close>; the empty
  query matches every entity; two queries that differ only in letter case give the same
  result (for every limit).
\<close>

theorem searchEntities_spec:
  "(0 \<le> limit \<longrightarrow>
      searchEntities ds t q limit =
        take (nat \<lfloor>limit\<rfloor>) (filter (name_contains_ci q) (collection ds t)))
   \<and> (\<forall>e. name_contains_ci [] e)
   \<and> (same_ignoring_case q q' \<longrightarrow>
        searchEntities ds t q limit = searchEntities ds t q' limit)"
proof (intro conjI impI allI)
  assume "0 \<le> limit"
  then show "searchEntities ds t q limit =
        take (nat \<lfloor>limit\<rfloor>) (filter (name_contains_ci q) (collection ds t))"
    by (simp add: searchEntities_filter slice_from_zero name_contains_ci_fun)
next
  fix e
  show "name_contains_ci [] e"
    by (simp add: name_contains_ci_iff toLowerCase_def js_includes_sublist)
next
  assume "same_ignoring_case q q'"
  then show "searchEntities ds t q limit = searchEntities ds t q' limit"
    by (simp add: searchEntities_filter same_ignoring_case_iff)
qed

text \<open>C3 as stated fails for a negative limit: \<open>slice(0, -1)\<close> drops the last match, so two
  authors are returned where a truncation to \<open>-1\<close> leaves none.\<close>

theorem searchEntities_negative_limit:
  "length (searchEntities mockData Author [] (- 1)) = 2
   \<and> searchEntities mockData Author [] (- 1) \<noteq>
       take (nat \<lfloor>- 1 :: rat\<rfloor>) (filter (name_contains_ci []) (collection mockData Author))"
proof -
  have "searchEntities mockData Author [] (- 1) = [mockAuthors ! 0, mockAuthors ! 1]"
    by code_simp
  then show ?thesis by simp
qed

theorem searchEntities_spec_witness:
  "(0::rat) \<le> 10
   \<and> searchEntities mockData Author ''chen'' 10 =
       take (nat \<lfloor>10 :: rat\<rfloor>) (filter (name_contains_ci ''chen'') (collection mockData Author))
   \<and> same_ignoring_case ''chen'' ''CHEN''
   \<and> searchEntities mockData Author ''chen'' 10 = searchEntities mockData Author ''CHEN'' 10
   \<and> searchEntities mockData Author ''CHEN'' 10 = [mockAuthors ! 0]"
proof -
  note s = searchEntities_spec [of 10 mockData Author "''chen''" "''CHEN''"]
  have c: "same_ignoring_case ''chen'' ''CHEN''"
    by code_simp
  have e: "searchEntities mockData Author ''CHEN'' 10 = [mockAuthors ! 0]"
    by code_simp
  from s have a: "searchEntities mockData Author ''chen'' 10 =
       take (nat \<lfloor>10 :: rat\<rfloor>) (filter (name_contains_ci ''chen'') (collection mockData Author))"
    by simp
  from s c have b: "searchEntities mockData Author ''chen'' 10 =
      searchEntities mockData Author ''CHEN'' 10"
    by blast
  from a b c e show ?thesis by (intro conjI) simp_all
qed

section \<open>Ranking\<close>

lemma compareFn_numeric:
  "numeric_metric m a \<Longrightarrow> numeric_metric m b \<Longrightarrow>
   compareFn m a b = Fin (metric_value m b - metric_value m a)"
  by (auto simp: numeric_metric_def metric_value_def compareFn_def or_zero_def
           split: option.splits jsval.splits)

lemma insert_sorted_insort_key:
  "numeric_metric m x \<Longrightarrow> list_all (numeric_metric m) ys \<Longrightarrow>
   insert_sorted (compareFn m) x ys = insort_key (\<lambda>e. - metric_value m e) x ys"
  by (induction ys) (auto simp: compareFn_numeric)

lemma js_sort_sort_key:
  "list_all (numeric_metric m) xs \<Longrightarrow>
   js_sort (compareFn m) xs = sort_key (\<lambda>e. - metric_value m e) xs"
proof (induction xs)
  case Nil
  then show ?case by (simp add: js_sort_def)
next
  case (Cons x xs)
  then have "list_all (numeric_metric m) (sort_key (\<lambda>e. - metric_value m e) xs)"
    by (simp add: list_all_iff)
  with Cons show ?case
    by (simp add: js_sort_def insert_sorted_insort_key)
qed

text \<open>Where every entity holds a nested object under the key, every comparison is NaN and
  the collection order is kept.\<close>

lemma compareFn_nested:
  "\<not> numeric_metric m a \<Longrightarrow> compareFn m a b = NaN"
  "\<not> numeric_metric m b \<Longrightarrow> compareFn m a b = NaN"
  by (auto simp: numeric_metric_def compareFn_def or_zero_def
           split: option.splits jsval.splits elim: js_sub.elims)

lemma js_sort_nested:
  "list_all (\<lambda>e. \<not> numeric_metric m e) xs \<Longrightarrow> js_sort (compareFn m) xs = xs"
proof (induction xs)
  case Nil
  then show ?case by (simp add: js_sort_def)
next
  case (Cons x xs)
  then have "js_sort (compareFn m) xs = xs" and "\<not> numeric_metric m x"
    by simp_all
  then show ?case
    by (cases xs) (simp_all add: js_sort_def compareFn_nested)
qed

lemma getTopEntities_slice:
  "getTopEntities ds t m limit = slice (js_sort (compareFn m) (collection ds t)) 0 limit"
  by (cases t) (simp_all add: getTopEntities_def collection_def)

text \<open>
  C2, as the code has it. For every entityType, limit \<open>\<ge> 0\<close> and metric under which the
  entities of the collection hold a number or nothing: \<open>getTopEntities\<close> returns the first
  \<open>\<lfloor>limit\<rfloor>\<close> entities of a rearrangement \<open>S\<close> of the collection that is sorted descending by
  the metric's value (0 where the key is missing) and keeps entities of equal value in
  collection order; the result's length is \<open>min \<lfloor>limit\<rfloor> collectionSize\<close>.
\<close>

theorem getTopEntities_spec:
  "0 \<le> limit \<and> list_all (numeric_metric m) (collection ds t) \<longrightarrow>
     (\<exists>S. mset S = mset (collection ds t)
         \<and> sorted_wrt (\<lambda>a b. metric_value m a \<ge> metric_value m b) S
         \<and> (\<forall>v. filter (\<lambda>e. metric_value m e = v) S =
                 filter (\<lambda>e. metric_value m e = v) (collection ds t))
         \<and> getTopEntities ds t m limit = take (nat \<lfloor>limit\<rfloor>) S)
     \<and> length (getTopEntities ds t m limit) = min (nat \<lfloor>limit\<rfloor>) (length (collection ds t))"
proof (intro impI conjI)
  assume h: "0 \<le> limit \<and> list_all (numeric_metric m) (collection ds t)"
  define S where "S = sort_key (\<lambda>e. - metric_value m e) (collection ds t)"
  have g: "getTopEntities ds t m limit = take (nat \<lfloor>limit\<rfloor>) S"
    using h by (simp add: getTopEntities_slice js_sort_sort_key slice_from_zero S_def)
  have p: "mset S = mset (collection ds t)"
    by (simp add: S_def)
  have "sorted (map (\<lambda>e. - metric_value m e) S)"
    by (simp add: S_def)
  then have d: "sorted_wrt (\<lambda>a b. metric_value m a \<ge> metric_value m b) S"
    by (simp add: sorted_map sorted_wrt_map)
  have "filter (\<lambda>e. - metric_value m e = - v) S =
        filter (\<lambda>e. - metric_value m e = - v) (collection ds t)" for v
    unfolding S_def by (rule sort_key_stable)
  then have st: "\<forall>v. filter (\<lambda>e. metric_value m e = v) S =
        filter (\<lambda>e. metric_value m e = v) (collection ds t)"
    by simp
  from g p d st
  show "\<exists>S. mset S = mset (collection ds t)
         \<and> sorted_wrt (\<lambda>a b. metric_value m a \<ge> metric_value m b) S
         \<and> (\<forall>v. filter (\<lambda>e. metric_value m e = v) S =
                 filter (\<lambda>e. metric_value m e = v) (collection ds t))
         \<and> getTopEntities ds t m limit = take (nat \<lfloor>limit\<rfloor>) S"
    by blast
  have "length S = length (collection ds t)"
    by (simp add: S_def)
  with g show "length (getTopEntities ds t m limit) =
      min (nat \<lfloor>limit\<rfloor>) (length (collection ds t))"
    by (simp add: min.commute)
qed

text \<open>C2 as stated fails for a negative limit: \<open>slice(0, -1)\<close> returns two of the three
  authors, and \<open>min(-1, 3)\<close> is \<open>-1\<close>.\<close>

theorem getTopEntities_negative_limit:
  "length (getTopEntities mockData Author ''citations'' (- 1)) = 2
   \<and> length (collection mockData Author) = 3
   \<and> rat_of_nat (length (getTopEntities mockData Author ''citations'' (- 1))) \<noteq>
       min (- 1) (rat_of_nat (length (collection mockData Author)))"
proof -
  have "getTopEntities mockData Author ''citations'' (- 1) = [mockAuthors ! 1, mockAuthors ! 0]"
    by code_simp
  moreover have "length (collection mockData Author) = 3"
    by code_simp
  ultimately show ?thesis by simp
qed

theorem getTopEntities_spec_witness:
  "(0::rat) \<le> 2 \<and> list_all (numeric_metric ''citations'') (collection mockData Author)
   \<and> getTopEntities mockData Author ''citations'' 2 = [mockAuthors ! 1, mockAuthors ! 0]
   \<and> length (getTopEntities mockData Author ''citations'' 2) =
       min (nat \<lfloor>2 :: rat\<rfloor>) (length (collection mockData Author))"
proof -
  note s = getTopEntities_spec [of 2 "''citations''" mockData Author]
  have n: "list_all (numeric_metric ''citations'') (collection mockData Author)"
    by code_simp
  have e: "getTopEntities mockData Author ''citations'' 2 = [mockAuthors ! 1, mockAuthors ! 0]"
    by code_simp
  from s n have "length (getTopEntities mockData Author ''citations'' 2) =
       min (nat \<lfloor>2 :: rat\<rfloor>) (length (collection mockData Author))"
    by simp
  with n e show ?thesis by simp
qed

section \<open>Trend series\<close>

text \<open>With both bounds truthy or omitted, \<open>getTrend\<close> filters as the specification words
  it.\<close>

lemma getTrend_truthy_bounds:
  "startYear \<noteq> Some 0 \<Longrightarrow> endYear \<noteq> Some 0 \<Longrightarrow>
   getTrend ds entityId metric startYear endYear =
     map_option (filter (in_range startYear endYear)) (map_of (trends ds) entityId)"
  by (cases startYear; cases endYear)
     (auto simp: getTrend_def truthy_number_def in_range_def Let_def
           split: option.splits intro: filter_cong)

text \<open>The result is absent only when the series lookup fails, and the metric argument
  is never read.\<close>

lemma getTrend_absent_iff:
  "(getTrend ds entityId metric startYear endYear = None) = (map_of (trends ds) entityId = None)"
  by (simp add: getTrend_def Let_def split: option.splits)

lemma getTrend_metric_unused:
  "getTrend ds entityId metric startYear endYear = getTrend ds entityId metric' startYear endYear"
  by (simp add: getTrend_def)

text \<open>
  C4. The claim: \<open>getTrend\<close> returns the points with \<open>startYear \<le> year \<le> endYear\<close>, each bound
  inclusive. At \<open>endYear = 0\<close> the test \<open>if (endYear)\<close> is false, the filter is skipped and
  all five points of \<open>auth_001\<close> come back, where no point has \<open>year \<le> 0\<close>.
\<close>

theorem getTrend_zero_endYear_keeps_all:
  "getTrend mockData ''auth_001'' ''publications'' None (Some 0) =
     Some [\<lparr>year = 2019, pvalue = 12\<rparr>, \<lparr>year = 2020, pvalue = 15\<rparr>, \<lparr>year = 2021, pvalue = 18\<rparr>,
           \<lparr>year = 2022, pvalue = 22\<rparr>, \<lparr>year = 2023, pvalue = 19\<rparr>]
   \<and> filter (in_range None (Some 0))
       [\<lparr>year = 2019, pvalue = 12\<rparr>, \<lparr>year = 2020, pvalue = 15\<rparr>, \<lparr>year = 2021, pvalue = 18\<rparr>,
        \<lparr>year = 2022, pvalue = 22\<rparr>, \<lparr>year = 2023, pvalue = 19\<rparr>] = []"
  by (simp add: getTrend_def mockData_def mockTrends_def truthy_number_def in_range_def)

text \<open>
  C10. The claim: bounds that exclude every point of an existing series give the empty
  sequence. The bounds \<open>startYear = 2020\<close>, \<open>endYear = 0\<close> exclude every point of
  \<open>inst_001\<close>, and \<open>getTrend\<close> returns the four points from 2020 on: the upper bound 0 is
  skipped as if omitted.
\<close>

theorem getTrend_excluding_bound_not_empty:
  "map_of (trends mockData) ''inst_001'' =
     Some [\<lparr>year = 2019, pvalue = 11234\<rparr>, \<lparr>year = 2020, pvalue = 11892\<rparr>,
           \<lparr>year = 2021, pvalue = 12156\<rparr>, \<lparr>year = 2022, pvalue = 12389\<rparr>,
           \<lparr>year = 2023, pvalue = 12456\<rparr>]
   \<and> filter (in_range (Some 2020) (Some 0))
       [\<lparr>year = 2019, pvalue = 11234\<rparr>, \<lparr>year = 2020, pvalue = 11892\<rparr>,
        \<lparr>year = 2021, pvalue = 12156\<rparr>, \<lparr>year = 2022, pvalue = 12389\<rparr>,
        \<lparr>year = 2023, pvalue = 12456\<rparr>] = []
   \<and> getTrend mockData ''inst_001'' ''publications'' (Some 2020) (Some 0) =
       Some [\<lparr>year = 2020, pvalue = 11892\<rparr>,
           \<lparr>year = 2021, pvalue = 12156\<rparr>, \<lparr>year = 2022, pvalue = 12389\<rparr>,
           \<lparr>year = 2023, pvalue = 12456\<rparr>]"
  by (simp add: getTrend_def mockData_def mockTrends_def truthy_number_def in_range_def)

section \<open>Introspection\<close>

lemma strings_of_JStr: "strings_of (JArr (map JStr ks)) = ks"
  by (induction ks) simp_all

lemma required_rendering:
  "strings_of (field (zodToJsonSchema (ZodObject shape d)) ''required'') =
     map fst (filter (\<lambda>(key, value). \<not> isOptional value) shape)"
proof (cases "filter (\<lambda>(key, value). \<not> isOptional value) shape = []")
  case True
  then show ?thesis by (simp add: Let_def)
next
  case False
  then have "field (zodToJsonSchema (ZodObject shape d)) ''required'' =
      JArr (map JStr (map fst (filter (\<lambda>(key, value). \<not> isOptional value) shape)))"
    by (simp add: Let_def)
  then show ?thesis by (simp only: strings_of_JStr)
qed

lemma listFunctions_eval:
  "map rendered_name listFunctions =
     map JStr [''getEntity'', ''searchEntities'', ''getMetrics'', ''compareEntities'',
               ''getTrend'', ''getTopEntities'']"
  "map rendered_required listFunctions =
      [[''entityType'', ''entityId''], [''entityType'', ''query''],
       [''entityType'', ''entityId''],
       [''entityType'', ''entityIdA'', ''entityIdB'', ''metric''],
       [''entityId'', ''metric''], [''entityType'', ''metric'']]"
  "map (\<lambda>(name, config). declared_required (schema config)) queryFunctions =
      [[''entityType'', ''entityId''], [''entityType'', ''query''],
       [''entityType'', ''entityId''],
       [''entityType'', ''entityIdA'', ''entityIdB'', ''metric''],
       [''entityId'', ''metric''], [''entityType'', ''metric'']]"
  "map fst queryFunctions =
     [''getEntity'', ''searchEntities'', ''getMetrics'', ''compareEntities'',
      ''getTrend'', ''getTopEntities'']"
  by code_simp+

text \<open>
  C9. Introspection lists the six registered functions, each once and in registry order,
  and the \<open>required\<close> list rendered for each function holds exactly the fields whose
  registered schema is neither marked optional nor given a default: the two \<open>limit\<close>
  parameters, \<open>metricNames\<close>, \<open>startYear\<close> and \<open>endYear\<close> are not listed, every other
  declared field is.
\<close>

theorem introspection_lists_registry:
  "map rendered_name listFunctions = map (JStr \<circ> fst) queryFunctions
   \<and> distinct (map rendered_name listFunctions)
   \<and> length listFunctions = 6
   \<and> map rendered_required listFunctions =
       map (\<lambda>(name, config). declared_required (schema config)) queryFunctions
   \<and> map rendered_required listFunctions =
      [[''entityType'', ''entityId''], [''entityType'', ''query''],
       [''entityType'', ''entityId''],
       [''entityType'', ''entityIdA'', ''entityIdB'', ''metric''],
       [''entityId'', ''metric''], [''entityType'', ''metric'']]"
proof -
  have n: "map rendered_name listFunctions = map (JStr \<circ> fst) queryFunctions"
    by (simp add: listFunctions_eval flip: map_map)
  have d: "distinct (map rendered_name listFunctions)"
    by (simp add: listFunctions_eval)
  have "length (map rendered_name listFunctions) = 6"
    by (simp add: listFunctions_eval)
  then have l: "length listFunctions = 6"
    by simp
  have r: "map rendered_required listFunctions =
       map (\<lambda>(name, config). declared_required (schema config)) queryFunctions"
    by (simp only: listFunctions_eval)
  from n d l r show ?thesis
    by (simp only: listFunctions_eval(2) simp_thms)
qed

section \<open>Batch invocation\<close>

text \<open>The batch result is the per-item result of each query, in input order, and an
  item of a registered function carries the \<open>success\<close> tag and mirrors the body of the
  single-query route.\<close>

lemma batch_in_order:
  "batchRoute ds (Some qs) = BatchResults (map (processQuery ds) qs)"
  "length (map (processQuery ds) qs) = length qs"
  "i < length qs \<Longrightarrow> map (processQuery ds) qs ! i = processQuery ds (qs ! i)"
  by (simp_all add: batchRoute_def)

lemma processQuery_tag:
  "success (processQuery ds (functionName, params)) =
     (if map_of queryFunctions functionName = None \<and> functionName \<notin> set object_prototype_keys
      then None
      else Some (status (queryRoute ds functionName params) = 200))"
  by (simp add: processQuery_def queryRoute_def split: option.splits sum.splits)

lemma processQuery_queryRoute:
  "result (processQuery ds (functionName, params)) =
     body_result (queryRoute ds functionName params)"
  "details (processQuery ds (functionName, params)) =
     body_details (queryRoute ds functionName params)"
  "(error (processQuery ds (functionName, params)) = None) =
     (body_error (queryRoute ds functionName params) = None)"
  by (simp_all add: processQuery_def queryRoute_def split: option.splits sum.splits)

text \<open>A name inherited from \<open>Object.prototype\<close> is not reported as not found: the item is
  a tagged execution failure, the single-query answer a 500.\<close>

lemma inherited_function_name:
  "processQuery ds (''toString'', params) =
     \<lparr>success = Some False, result = None, error = Some ''Execution failed'', details = None\<rparr>"
  "queryRoute ds ''toString'' params =
     \<lparr>status = 500, body_result = None, body_error = Some ''Internal server error'',
      body_details = None\<rparr>"
  by (simp_all add: processQuery_def queryRoute_def queryFunctions_def object_prototype_keys_def)

text \<open>The parameters a schema's \<open>parse\<close> returns have the types the registered function
  declares: the branch \<open>Inl TypeError\<close> of a wrapper, which stands for ill-typed
  parameters, is not taken on validated parameters.\<close>

lemma parsed_ok_iff: "parsed_ok r = (\<exists>y. r = Inr y)"
  by (cases r) simp_all

lemma parse_object_Inr:
  assumes "zod_parse (ZodObject shape d) p v = Inr x"
  shows "\<exists>kvs. v = JObj kvs
    \<and> list_all (\<lambda>(key, t). parsed_ok (zod_parse t (p @ [Key key]) (field v key))) shape
    \<and> x = JObj (concat (map (\<lambda>(key, t).
            filter (\<lambda>(k, y). y \<noteq> JUndefined \<or> key \<in> fst ` set kvs)
              (map (Pair key) (values_of (zod_parse t (p @ [Key key]) (field v key))))) shape))"
proof (cases v)
  case (JObj kvs)
  with assms show ?thesis
    by (simp add: Let_def list_all_iff split_def comp_def split: if_splits)
qed (use assms in \<open>simp_all add: invalid_type_def\<close>)

lemma kept_keys:
  "(k, y) \<in> set (concat (map (\<lambda>(key, t).
      filter (\<lambda>(k, y). y \<noteq> JUndefined \<or> Q key) (map (Pair key) (values_of (R key t)))) shape))
   \<Longrightarrow> k \<in> fst ` set shape"
  by (induction shape) (force split: if_splits)+

lemma kept_lookup:
  assumes "distinct (map fst shape)" "(key, t) \<in> set shape" "R key t = Inr y"
  shows "(case map_of (concat (map (\<lambda>(key, t).
      filter (\<lambda>(k, y). y \<noteq> JUndefined \<or> Q key) (map (Pair key) (values_of (R key t)))) shape))
      key of Some a \<Rightarrow> a | None \<Rightarrow> JUndefined) = y"
  using assms
proof (induction shape)
  case Nil
  then show ?case by simp
next
  case (Cons a shape)
  obtain k0 t0 where a: "a = (k0, t0)" by (cases a)
  show ?case
  proof (cases "k0 = key")
    case True
    with Cons.prems a have t: "t0 = t"
      by (auto simp: image_iff)
    let ?rest = "concat (map (\<lambda>(key, t).
      filter (\<lambda>(k, y). y \<noteq> JUndefined \<or> Q key) (map (Pair key) (values_of (R key t)))) shape)"
    from True Cons.prems a have nk: "key \<notin> fst ` set shape"
      by simp
    have "map_of ?rest key = None"
    proof (rule ccontr)
      assume "map_of ?rest key \<noteq> None"
      then obtain z where "map_of ?rest key = Some z"
        by auto
      then have "(key, z) \<in> set ?rest"
        by (rule map_of_SomeD)
      then have "key \<in> fst ` set shape"
        by (rule kept_keys)
      with nk show False
        by simp
    qed
    with True t a Cons.prems(3) show ?thesis
      by (simp add: map_add_def)
  next
    case False
    with Cons.prems a have m: "(key, t) \<in> set shape" and d: "distinct (map fst shape)"
      by auto
    have "map_of (filter (\<lambda>(k, y). y \<noteq> JUndefined \<or> Q k0)
        (map (Pair k0) (values_of (R k0 t0)))) key = None"
      using False by (cases "R k0 t0") (auto simp: map_of_eq_None_iff)
    with Cons.IH [OF d m Cons.prems(3)] a show ?thesis
      by (simp add: map_add_def)
  qed
qed

lemma parsed_object_field:
  assumes "zod_parse (ZodObject shape d) p v = Inr x" "distinct (map fst shape)"
    "(key, t) \<in> set shape"
  shows "zod_parse t (p @ [Key key]) (field v key) = Inr (field x key)"
proof -
  from parse_object_Inr [OF assms(1)] obtain kvs where
    v: "v = JObj kvs" and
    ok: "list_all (\<lambda>(key, t). parsed_ok (zod_parse t (p @ [Key key]) (field v key))) shape" and
    x: "x = JObj (concat (map (\<lambda>(key, t).
            filter (\<lambda>(k, y). y \<noteq> JUndefined \<or> key \<in> fst ` set kvs)
              (map (Pair key) (values_of (zod_parse t (p @ [Key key]) (field v key))))) shape))"
    by blast
  from ok assms(3) obtain y where y: "zod_parse t (p @ [Key key]) (field v key) = Inr y"
    by (auto simp: list_all_iff parsed_ok_iff)
  from kept_lookup [of shape key t "\<lambda>key t. zod_parse t (p @ [Key key]) (field v key)" y
      "\<lambda>key. key \<in> fst ` set kvs", OF assms(2) assms(3) y]
  have "field x key = y"
    unfolding x by simp
  with y show ?thesis by simp
qed


lemma parse_string_as: "zod_parse (ZodString d) p v = Inr x \<Longrightarrow> \<exists>s. as_string x = Some s"
  by (cases v) (auto simp: invalid_type_def)

lemma parse_entityType_as:
  "zod_parse (entityTypeEnum d) p v = Inr x \<Longrightarrow> \<exists>t. as_entityType x = Some t"
  by (cases v) (auto simp: invalid_type_def entityTypeEnum_def split: if_splits)

lemma parse_limit_as:
  "zod_parse (ZodDefault (ZodOptional (ZodNumber d1) d2) (JNum n) d3) p v = Inr x \<Longrightarrow>
   \<exists>r. as_number x = Some r"
  by (cases v) (auto simp: invalid_type_def)

lemma parse_optional_number_as:
  "zod_parse (ZodOptional (ZodNumber d1) d2) p v = Inr x \<Longrightarrow>
   \<exists>r. as_optional as_number x = Some r"
  by (cases v) (auto simp: invalid_type_def)

lemma parsed_string_values:
  "a \<in> set (values_of (zod_parse (ZodString d) p v)) \<Longrightarrow> as_string a \<noteq> None"
  by (cases v) (auto simp: invalid_type_def)

lemma parse_strings_as:
  "zod_parse (ZodArray (ZodString d1) d2) p v = Inr x \<Longrightarrow> \<exists>r. as_strings x = Some r"
proof (cases v)
  case (JArr ys)
  assume "zod_parse (ZodArray (ZodString d1) d2) p v = Inr x"
  with JArr have x: "x = JArr (concat (map values_of
      (map (\<lambda>(i, y). zod_parse (ZodString d1) (p @ [Index i]) y) (enumerate 0 ys))))"
    by (simp add: Let_def del: zod_parse.simps(1) split: if_splits)
  have "list_all (\<lambda>a. as_string a \<noteq> None) (concat (map values_of
      (map (\<lambda>(i, y). zod_parse (ZodString d1) (p @ [Index i]) y) (enumerate 0 ys))))"
    unfolding list_all_iff by (auto dest: parsed_string_values)
  with x show ?thesis by simp
qed (simp_all add: invalid_type_def)

lemma parse_optional_strings_as:
  "zod_parse (ZodOptional (ZodArray (ZodString d1) d2) d3) p v = Inr x \<Longrightarrow>
   \<exists>r. as_optional as_strings x = Some r"
proof (cases "v = JUndefined")
  case True
  assume "zod_parse (ZodOptional (ZodArray (ZodString d1) d2) d3) p v = Inr x"
  with True show ?thesis by simp
next
  case False
  assume "zod_parse (ZodOptional (ZodArray (ZodString d1) d2) d3) p v = Inr x"
  with False have a: "zod_parse (ZodArray (ZodString d1) d2) p v = Inr x"
    by (cases v) simp_all
  then obtain r where r: "as_strings x = Some r"
    using parse_strings_as by blast
  then have "x \<noteq> JUndefined" by auto
  with r show ?thesis by (cases x) simp_all
qed

lemma getEntity_fn_total:
  assumes "zod_parse getEntitySchema [] raw = Inr params"
  shows "\<exists>r. getEntity_fn ds params = Inr r"
proof -
  note f = parsed_object_field [OF assms [unfolded getEntitySchema_def], simplified]
  from f [of "''entityType''"] obtain t where "as_entityType (field params ''entityType'') = Some t"
    using parse_entityType_as by fastforce
  moreover from f [of "''entityId''"] obtain i where "as_string (field params ''entityId'') = Some i"
    using parse_string_as by fastforce
  ultimately show ?thesis
    by (simp add: getEntity_fn_def)
qed


lemma searchEntities_fn_total:
  assumes "zod_parse searchEntitiesSchema [] raw = Inr params"
  shows "\<exists>r. searchEntities_fn ds params = Inr r"
proof -
  note f = parsed_object_field [OF assms [unfolded searchEntitiesSchema_def], simplified]
  from f [of "''entityType''"] obtain t where "as_entityType (field params ''entityType'') = Some t"
    using parse_entityType_as by fastforce
  moreover from f [of "''query''"] obtain q where "as_string (field params ''query'') = Some q"
    using parse_string_as by fastforce
  moreover from f [of "''limit''"] obtain l where "as_number (field params ''limit'') = Some l"
    using parse_limit_as by fastforce
  ultimately show ?thesis
    by (simp add: searchEntities_fn_def)
qed

lemma getMetrics_fn_total:
  assumes "zod_parse getMetricsSchema [] raw = Inr params"
  shows "\<exists>r. getMetrics_fn ds params = Inr r"
proof -
  note f = parsed_object_field [OF assms [unfolded getMetricsSchema_def], simplified]
  from f [of "''entityType''"] obtain t where "as_entityType (field params ''entityType'') = Some t"
    using parse_entityType_as by fastforce
  moreover from f [of "''entityId''"] obtain i where "as_string (field params ''entityId'') = Some i"
    using parse_string_as by fastforce
  moreover from f [of "''metricNames''"] obtain n where
    "as_optional as_strings (field params ''metricNames'') = Some n"
    using parse_optional_strings_as by fastforce
  ultimately show ?thesis
    by (simp add: getMetrics_fn_def)
qed

lemma compareEntities_fn_total:
  assumes "zod_parse compareEntitiesSchema [] raw = Inr params"
  shows "\<exists>r. compareEntities_fn ds params = Inr r"
proof -
  note f = parsed_object_field [OF assms [unfolded compareEntitiesSchema_def], simplified]
  from f [of "''entityType''"] obtain t where "as_entityType (field params ''entityType'') = Some t"
    using parse_entityType_as by fastforce
  moreover from f [of "''entityIdA''"] obtain a where
    "as_string (field params ''entityIdA'') = Some a"
    using parse_string_as by fastforce
  moreover from f [of "''entityIdB''"] obtain b where
    "as_string (field params ''entityIdB'') = Some b"
    using parse_string_as by fastforce
  moreover from f [of "''metric''"] obtain m where "as_string (field params ''metric'') = Some m"
    using parse_string_as by fastforce
  ultimately show ?thesis
    by (simp add: compareEntities_fn_def)
qed

lemma getTrend_fn_total:
  assumes "zod_parse getTrendSchema [] raw = Inr params"
  shows "\<exists>r. getTrend_fn ds params = Inr r"
proof -
  note f = parsed_object_field [OF assms [unfolded getTrendSchema_def], simplified]
  from f [of "''entityId''"] obtain i where "as_string (field params ''entityId'') = Some i"
    using parse_string_as by fastforce
  moreover from f [of "''metric''"] obtain m where "as_string (field params ''metric'') = Some m"
    using parse_string_as by fastforce
  moreover from f [of "''startYear''"] obtain s where
    "as_optional as_number (field params ''startYear'') = Some s"
    using parse_optional_number_as by fastforce
  moreover from f [of "''endYear''"] obtain e where
    "as_optional as_number (field params ''endYear'') = Some e"
    using parse_optional_number_as by fastforce
  ultimately show ?thesis
    by (simp add: getTrend_fn_def)
qed

lemma getTopEntities_fn_total:
  assumes "zod_parse getTopEntitiesSchema [] raw = Inr params"
  shows "\<exists>r. getTopEntities_fn ds params = Inr r"
proof -
  note f = parsed_object_field [OF assms [unfolded getTopEntitiesSchema_def], simplified]
  from f [of "''entityType''"] obtain t where "as_entityType (field params ''entityType'') = Some t"
    using parse_entityType_as by fastforce
  moreover from f [of "''metric''"] obtain m where "as_string (field params ''metric'') = Some m"
    using parse_string_as by fastforce
  moreover from f [of "''limit''"] obtain l where "as_number (field params ''limit'') = Some l"
    using parse_limit_as by fastforce
  ultimately show ?thesis
    by (simp add: getTopEntities_fn_def)
qed

lemma registered_function_total:
  assumes "map_of queryFunctions functionName = Some queryConfig"
    and "zod_parse (schema queryConfig) [] raw = Inr params"
  shows "\<exists>r. func queryConfig ds params = Inr r"
  using assms getEntity_fn_total searchEntities_fn_total getMetrics_fn_total
    compareEntities_fn_total getTrend_fn_total getTopEntities_fn_total
  by (auto simp: queryFunctions_def split: if_splits)

text \<open>
  C5. The claim: every item of the batch result is tagged success or failure, an unknown
  function name included. The item for the unknown name \<open>nope\<close> is \<open>{ error: ... }\<close> with
  no \<open>success\<close> key, next to a tagged item for a valid call.
\<close>

theorem batch_unknown_function_untagged:
  "batchRoute mockData
     (Some [(''getEntity'', JObj [(''entityType'', JStr ''author''),
                                   (''entityId'', JStr ''auth_001'')]),
            (''nope'', JObj [])]) =
   BatchResults
     [\<lparr>success = Some True, result = Some (EntityResult (Some (mockAuthors ! 0))),
       error = None, details = None\<rparr>,
      \<lparr>success = None, result = None,
       error = Some (''Function '' @ [CHR 0x27] @ ''nope'' @ [CHR 0x27] @ '' not found''),
       details = None\<rparr>]"
  by code_simp

end
